theory Spec2Isabelle
  imports Complex_Main
begin

section \<open>The Keynesian Cross / IS-LM model module (models.py)\<close>

text \<open>
  The module consists of the parameter dataclass \<open>KCParams\<close> and the two pure functions
  \<open>kc_equilibrium\<close> (the spec's \<open>solveEquilibrium\<close>) and \<open>kc_locus\<close> (the spec's
  \<open>computeLocus\<close>).

  Arithmetic. A Python \<open>float\<close> is modelled as a \<open>real\<close> and every operation is exact:
  rounding to 53 significant bits is not part of the model, and the literal \<open>1e-9\<close> is the
  real number \<open>1 / 10 ^ 9\<close>. The fields of a parameter record are finite numbers (\<open>inf\<close> and
  \<open>nan\<close> are not inputs of the model). What the model does keep of the float operations is where they
  can fail or leave the finite numbers: Python's scalar division raises
  \<open>ZeroDivisionError\<close> on a zero divisor, numpy's elementwise division stores a non-finite
  value there instead, and a binary64 result is finite only while the magnitude of the exact
  result stays below \<open>2 ^ 1024\<close>.
\<close>

subsection \<open>Data\<close>

record KCParams =
  a :: real
  c :: real
  T :: real
  G :: real
  i :: real
  i_max :: real
  b0 :: real
  b1 :: real
  b2 :: real

datatype py_error = ZeroDivisionError

text \<open>Python's \<open>x / y\<close> on two floats.\<close>

definition py_truediv :: "real \<Rightarrow> real \<Rightarrow> py_error + real" where
  "py_truediv x y = (if y = 0 then Inl ZeroDivisionError else Inr (x / y))"

text \<open>
  numpy broadcasting of a scalar over a one-dimensional array: \<open>s * xs\<close>, \<open>s - xs\<close> and
  \<open>xs / s\<close>. The array is a list. Dividing by zero does not raise in numpy: the element
  becomes \<open>inf\<close> or \<open>nan\<close> (with a warning); \<open>None\<close> stands for such a non-finite element.
\<close>

definition np_rmul :: "real \<Rightarrow> real list \<Rightarrow> real list" where
  "np_rmul s xs = map (\<lambda>x. s * x) xs"

definition np_rsub :: "real \<Rightarrow> real list \<Rightarrow> real list" where
  "np_rsub s xs = map (\<lambda>x. s - x) xs"

definition np_truediv :: "real list \<Rightarrow> real \<Rightarrow> real option list" where
  "np_truediv xs s = map (\<lambda>x. if s = 0 then None else Some (x / s)) xs"


subsection \<open>The two functions\<close>

text \<open>
  \<open>kc_equilibrium\<close> returns a dict with the three keys \<open>Y_star\<close>, \<open>AD_intercept\<close> and
  \<open>AD_slope\<close>; the dict is a map from strings.
\<close>

definition kc_equilibrium :: "KCParams \<Rightarrow> py_error + (string \<rightharpoonup> real)" where
  "kc_equilibrium p =
     (let denom = 1 - c p - b1 p;
          denom = (if \<bar>denom\<bar> < 0.000000001 then 0.000000001 else denom);
          intercept = a p - c p * T p + b0 p - b2 p * i p + G p
      in case py_truediv intercept denom of
           Inl e \<Rightarrow> Inl e
         | Inr Y_star \<Rightarrow>
             Inr [''Y_star'' \<mapsto> Y_star,
                  ''AD_intercept'' \<mapsto> intercept,
                  ''AD_slope'' \<mapsto> c p + b1 p])"

definition kc_locus :: "KCParams \<Rightarrow> real list \<Rightarrow> real option list" where
  "kc_locus p i_grid =
     (let denom = 1 - c p - b1 p;
          denom = (if \<bar>denom\<bar> < 0.000000001 then 0.000000001 else denom);
          intercept0 = a p - c p * T p + b0 p + G p
      in np_truediv (np_rsub intercept0 (np_rmul (b2 p) i_grid)) denom)"

text \<open>The parameter values the dashboard starts from (\<open>DEFAULTS\<close> in app.py).\<close>

definition DEFAULTS :: KCParams where
  "DEFAULTS = \<lparr>a = 20, c = 0.6, T = 10, G = 50, i = 0.5, i_max = 4,
               b0 = 30, b1 = 0.2, b2 = 10\<rparr>"


section \<open>Closed forms\<close>

text \<open>
  The denominator both functions divide by, after the substitution, is never zero; so the
  division of \<open>kc_equilibrium\<close> succeeds and the function has the closed form below.
\<close>

lemma guarded_denom_nonzero:
  "(if \<bar>d\<bar> < 0.000000001 then 0.000000001 else d) \<noteq> (0::real)"
  by auto

lemma kc_equilibrium_closed_form:
  "kc_equilibrium p =
     Inr [''Y_star'' \<mapsto>
            (a p - c p * T p + b0 p - b2 p * i p + G p) /
            (if \<bar>1 - c p - b1 p\<bar> < 0.000000001 then 0.000000001 else 1 - c p - b1 p),
          ''AD_intercept'' \<mapsto> a p - c p * T p + b0 p - b2 p * i p + G p,
          ''AD_slope'' \<mapsto> c p + b1 p]"
  unfolding kc_equilibrium_def py_truediv_def Let_def
  by (simp only: guarded_denom_nonzero if_False sum.case)

lemma kc_locus_closed_form:
  "kc_locus p grid =
     map (\<lambda>r. Some ((a p - c p * T p + b0 p + G p - b2 p * r) /
            (if \<bar>1 - c p - b1 p\<bar> < 0.000000001 then 0.000000001 else 1 - c p - b1 p)))
       grid"
  unfolding kc_locus_def np_truediv_def np_rsub_def np_rmul_def Let_def
  by (simp only: guarded_denom_nonzero if_False map_map comp_def)

section \<open>Claims\<close>

text \<open>
  C1. For every parameter record whose multiplier denominator is bounded away from zero,
  \<open>\<bar>1 - c - b1\<bar> > 0.01\<close>, no substitution takes place and \<open>kc_equilibrium\<close> returns a
  dict whose \<open>Y_star\<close> is \<open>(a - c*T + b0 - b2*i + G) / (1 - c - b1)\<close>.
\<close>

theorem kc_equilibrium_Y_star:
  assumes "\<bar>1 - c p - b1 p\<bar> > 0.01"
  shows "\<exists>r. kc_equilibrium p = Inr r \<and>
             r ''Y_star'' = Some ((a p - c p * T p + b0 p - b2 p * i p + G p) /
                                  (1 - c p - b1 p))"
proof -
  from assms have "\<not> \<bar>1 - c p - b1 p\<bar> < 0.000000001" by simp
  then show ?thesis
    by (simp add: kc_equilibrium_closed_form)
qed

theorem kc_equilibrium_Y_star_witness:
  "\<bar>1 - c DEFAULTS - b1 DEFAULTS\<bar> > 0.01 \<and>
   (\<exists>r. kc_equilibrium DEFAULTS = Inr r \<and> r ''Y_star'' = Some 445)"
  using kc_equilibrium_Y_star [of DEFAULTS] by (simp add: DEFAULTS_def)

text \<open>
  C2. For every parameter record with \<open>\<bar>1 - c - b1\<bar> < 1e-9\<close> the division of
  \<open>kc_equilibrium\<close> succeeds (no \<open>ZeroDivisionError\<close>) and \<open>Y_star\<close> is the intercept
  \<open>a - c*T + b0 - b2*i + G\<close> divided by the fixed positive value \<open>1e-9\<close>, whatever the
  sign of \<open>1 - c - b1\<close>. The witness takes \<open>c = 0.7, b1 = 0.3\<close>, where the denominator
  is zero, and a second record whose denominator is negative.
\<close>

theorem kc_equilibrium_degenerate:
  assumes "\<bar>1 - c p - b1 p\<bar> < 0.000000001"
  shows "\<exists>r. kc_equilibrium p = Inr r \<and>
             r ''Y_star'' = Some ((a p - c p * T p + b0 p - b2 p * i p + G p) / 0.000000001)"
  using assms by (simp add: kc_equilibrium_closed_form)

theorem kc_equilibrium_degenerate_witness:
  "\<bar>1 - c (DEFAULTS\<lparr>c := 0.7, b1 := 0.3\<rparr>) - b1 (DEFAULTS\<lparr>c := 0.7, b1 := 0.3\<rparr>)\<bar> < 0.000000001 \<and>
   (\<exists>r. kc_equilibrium (DEFAULTS\<lparr>c := 0.7, b1 := 0.3\<rparr>) = Inr r \<and>
        r ''Y_star'' = Some 88000000000) \<and>
   1 - c (DEFAULTS\<lparr>c := 0.7, b1 := 0.3000000001\<rparr>) - b1 (DEFAULTS\<lparr>c := 0.7, b1 := 0.3000000001\<rparr>) < 0 \<and>
   (\<exists>r. kc_equilibrium (DEFAULTS\<lparr>c := 0.7, b1 := 0.3000000001\<rparr>) = Inr r \<and>
        r ''Y_star'' = Some 88000000000)"
  using kc_equilibrium_degenerate [of "DEFAULTS\<lparr>c := 0.7, b1 := 0.3\<rparr>"]
        kc_equilibrium_degenerate [of "DEFAULTS\<lparr>c := 0.7, b1 := 0.3000000001\<rparr>"]
  by (simp add: DEFAULTS_def)

text \<open>
  C3. For every parameter record and every rate grid, \<open>kc_locus\<close> returns as many values
  as the grid has, in the grid's order: the value at position \<open>k\<close> is
  \<open>(intercept0 - b2 * i_k) / denom\<close> with \<open>intercept0 = a - c*T + b0 + G\<close> and
  \<open>denom = 1 - c - b1\<close>, replaced by \<open>1e-9\<close> when \<open>\<bar>denom\<bar> < 1e-9\<close>.
\<close>

theorem kc_locus_elements:
  "length (kc_locus p grid) = length grid \<and>
   (\<forall>k < length grid.
      kc_locus p grid ! k =
        Some ((a p - c p * T p + b0 p + G p - b2 p * grid ! k) /
              (if \<bar>1 - c p - b1 p\<bar> < 0.000000001 then 0.000000001 else 1 - c p - b1 p)))"
  by (simp add: kc_locus_closed_form)

theorem kc_locus_elements_witness:
  "length (kc_locus DEFAULTS []) = 0 \<and>
   (0::nat) < length [1 :: real] \<and> length (kc_locus DEFAULTS [1]) = 1 \<and>
   kc_locus DEFAULTS [1] ! 0 = Some 420 \<and>
   (2::nat) < length [0, 1, 2 :: real] \<and> length (kc_locus DEFAULTS [0, 1, 2]) = 3 \<and>
   kc_locus DEFAULTS [0, 1, 2] ! 2 = Some 370"
  using kc_locus_elements [of DEFAULTS "[]"] kc_locus_elements [of DEFAULTS "[1]"]
    kc_locus_elements [of DEFAULTS "[0, 1, 2]"]
  by (simp add: DEFAULTS_def)







text \<open>
  C7. For \<open>a = 20, c = 0.6, T = 10, G = 50, b0 = 30, b1 = 0.2, b2 = 10, i = 0.5\<close> (and any
  \<open>i_max\<close>), \<open>kc_equilibrium\<close> returns \<open>Y_star = 445\<close> with intercept \<open>89\<close>, which is
  \<open>89 / 0.2\<close>, and \<open>kc_locus\<close> on the grid \<open>[0, 1]\<close> returns \<open>[470, 420]\<close>, which is
  \<open>[94 / 0.2, (94 - 10) / 0.2]\<close>.
\<close>

theorem kc_example:
  "kc_equilibrium \<lparr>a = 20, c = 0.6, T = 10, G = 50, i = 0.5, i_max = m,
                   b0 = 30, b1 = 0.2, b2 = 10\<rparr>
     = Inr [''Y_star'' \<mapsto> 445, ''AD_intercept'' \<mapsto> 89, ''AD_slope'' \<mapsto> 0.8] \<and>
   kc_locus \<lparr>a = 20, c = 0.6, T = 10, G = 50, i = 0.5, i_max = m,
             b0 = 30, b1 = 0.2, b2 = 10\<rparr> [0, 1]
     = [Some 470, Some 420] \<and>
   1 - 0.6 - 0.2 = (0.2::real) \<and> (445::real) = 89 / 0.2 \<and>
   (470::real) = 94 / 0.2 \<and> (420::real) = (94 - 10) / 0.2"
  by (simp add: kc_equilibrium_closed_form kc_locus_closed_form)

text \<open>
  C8. For every parameter record, with no precondition, the dict returned by
  \<open>kc_equilibrium\<close> has \<open>AD_slope = c + b1\<close> and
  \<open>AD_intercept = a - c*T + b0 - b2*i + G\<close>: the substitution of the denominator does not
  touch these two entries.
\<close>

theorem kc_equilibrium_AD_fields:
  "\<exists>r. kc_equilibrium p = Inr r \<and>
       r ''AD_slope'' = Some (c p + b1 p) \<and>
       r ''AD_intercept'' = Some (a p - c p * T p + b0 p - b2 p * i p + G p)"
  by (simp add: kc_equilibrium_closed_form)




text \<open>
  C10. If two parameter records agree on every field except \<open>i\<close> and \<open>i_max\<close>, then
  \<open>kc_locus\<close> returns the same values for both on every grid; if they also agree on \<open>i\<close>
  (so differ in \<open>i_max\<close> only), \<open>kc_equilibrium\<close> returns the same result for both.
\<close>

theorem kc_rate_independence:
  assumes "a q = a p" "c q = c p" "T q = T p" "G q = G p"
          "b0 q = b0 p" "b1 q = b1 p" "b2 q = b2 p"
  shows "kc_locus q grid = kc_locus p grid \<and>
         (i q = i p \<longrightarrow> kc_equilibrium q = kc_equilibrium p)"
  by (simp add: kc_locus_closed_form kc_equilibrium_closed_form assms)

theorem kc_rate_independence_witness:
  "a (DEFAULTS\<lparr>i := 3, i_max := 7\<rparr>) = a DEFAULTS \<and> c (DEFAULTS\<lparr>i := 3, i_max := 7\<rparr>) = c DEFAULTS \<and>
   T (DEFAULTS\<lparr>i := 3, i_max := 7\<rparr>) = T DEFAULTS \<and> G (DEFAULTS\<lparr>i := 3, i_max := 7\<rparr>) = G DEFAULTS \<and>
   b0 (DEFAULTS\<lparr>i := 3, i_max := 7\<rparr>) = b0 DEFAULTS \<and> b1 (DEFAULTS\<lparr>i := 3, i_max := 7\<rparr>) = b1 DEFAULTS \<and>
   b2 (DEFAULTS\<lparr>i := 3, i_max := 7\<rparr>) = b2 DEFAULTS \<and>
   kc_locus (DEFAULTS\<lparr>i := 3, i_max := 7\<rparr>) [0, 1] = kc_locus DEFAULTS [0, 1] \<and>
   i (DEFAULTS\<lparr>i_max := 7\<rparr>) = i DEFAULTS \<and>
   kc_equilibrium (DEFAULTS\<lparr>i_max := 7\<rparr>) = kc_equilibrium DEFAULTS"
  using kc_rate_independence [of "DEFAULTS\<lparr>i := 3, i_max := 7\<rparr>" DEFAULTS "[0, 1]"]
        kc_rate_independence [of "DEFAULTS\<lparr>i_max := 7\<rparr>" DEFAULTS "[]"]
  by simp

end
